theory Spec2Isabelle
  imports Complex_Main "HOL-Library.AList"
begin

section \<open>Python values and errors\<close>

text \<open>
  The stored formula of \<^verbatim>\<open>retrieval/stored_formula.py\<close> is a duck-typed nest of
  tuples, lists and dicts. It is modelled by one datatype of Python values. \<open>PSeq\<close>
  is a tuple or a list: as parts of a formula the source treats the two alike
  (\<^verbatim>\<open>isinstance(part, tuple) or isinstance(part, list)\<close>). They differ only as the key
  of a dictionary lookup, where a tuple can be hashed and a list cannot; a list in the
  place of a key (the field or the term of a hit) is written \<open>PList\<close>, so that
  \<open>PSeq\<close> in such a place is a tuple. A dict keeps its entries in insertion order and
  has string keys, as the dicts built by the parser have. Python's numbers (int and
  float) are idealised as reals.
\<close>

datatype pyval =
    PNone
  | PNum real
  | PStr string
  | PSeq "pyval list"
  | PList "pyval list"
  | PDict "(string \<times> pyval) list"

datatype py_error =
    KeyError
  | IndexError
  | ValueError
  | TypeError
  | AssertionError
  | RecursionError
  | UnboundLocalError

text \<open>
  The weight maps handed to \<^verbatim>\<open>computeScore\<close> are dicts from names to numbers. The
  source reads the field map with \<^verbatim>\<open>field_parameters[key]\<close>, whose result on a
  missing key depends on the class of the map: a plain \<^verbatim>\<open>dict\<close> raises
  \<^verbatim>\<open>KeyError\<close>, a \<^verbatim>\<open>defaultdict\<close> answers with the value of its factory. Both
  classes are kept apart. (A \<^verbatim>\<open>defaultdict\<close> also stores the default under the
  missing key; this changes neither a later lookup nor the truth value of a map that
  was non-empty, and is left out.)
\<close>

datatype weight_map =
    Dict "(string \<times> real) list"
  | DefaultDict real "(string \<times> real) list"

fun entries :: "weight_map \<Rightarrow> (string \<times> real) list" where
  "entries (Dict kvs) = kvs"
| "entries (DefaultDict d kvs) = kvs"

text \<open>\<^verbatim>\<open>if m:\<close> on an optional map: \<^verbatim>\<open>None\<close> and the empty map are both false.\<close>

fun truthy :: "weight_map option \<Rightarrow> bool" where
  "truthy None = False"
| "truthy (Some m) = (entries m \<noteq> [])"

text \<open>
  A list or a dict is not hashable, nor is a tuple with such a component; looking one up
  raises \<^verbatim>\<open>TypeError\<close>. Any other key that is not a string is simply absent from a
  map with string keys.
\<close>

fun hashable :: "pyval \<Rightarrow> bool" where
  "hashable PNone = True"
| "hashable (PNum x) = True"
| "hashable (PStr s) = True"
| "hashable (PSeq xs) = list_all hashable xs"
| "hashable (PList xs) = False"
| "hashable (PDict kvs) = False"

fun key_of :: "pyval \<Rightarrow> py_error + string option" where
  "key_of (PStr s) = Inr (Some s)"
| "key_of (PSeq xs) = (if hashable (PSeq xs) then Inr None else Inl TypeError)"
| "key_of (PList xs) = Inl TypeError"
| "key_of (PDict kvs) = Inl TypeError"
| "key_of v = Inr None"

text \<open>\<^verbatim>\<open>m[key]\<close>\<close>

fun getitem :: "weight_map \<Rightarrow> pyval \<Rightarrow> py_error + real" where
  "getitem m key =
     (case key_of key of
        Inl e \<Rightarrow> Inl e
      | Inr k \<Rightarrow>
          (case Option.bind k (map_of (entries m)) of
             Some v \<Rightarrow> Inr v
           | None \<Rightarrow> (case m of Dict kvs \<Rightarrow> Inl KeyError | DefaultDict d kvs \<Rightarrow> Inr d)))"

text \<open>\<^verbatim>\<open>m.get(key, default)\<close>, which never consults the factory of a \<^verbatim>\<open>defaultdict\<close>.\<close>

fun dict_get :: "weight_map \<Rightarrow> pyval \<Rightarrow> real \<Rightarrow> py_error + real" where
  "dict_get m key dflt =
     (case key_of key of
        Inl e \<Rightarrow> Inl e
      | Inr k \<Rightarrow>
          (case Option.bind k (map_of (entries m)) of
             Some v \<Rightarrow> Inr v
           | None \<Rightarrow> Inr dflt))"

text \<open>\<^verbatim>\<open>part[i]\<close> on a tuple or list, for the non-negative indices the source uses.\<close>

definition item :: "pyval list \<Rightarrow> nat \<Rightarrow> py_error + pyval" where
  "item part i = (if i < length part then Inr (part ! i) else Inl IndexError)"

text \<open>
  Multiplication of two Python values as numbers. An operand that is not a number is
  reported as \<^verbatim>\<open>TypeError\<close>; Python's repetition of a string or list by an int is not
  modelled, the parser stores numbers in these places.
\<close>

fun num_of :: "pyval \<Rightarrow> py_error + real" where
  "num_of (PNum x) = Inr x"
| "num_of v = Inl TypeError"

section \<open>Recomputing a stored formula\<close>

definition TERM_POSITION_IN_TUPLE :: nat where
  "TERM_POSITION_IN_TUPLE = 6"

text \<open>
  The tuple branch of \<^verbatim>\<open>computeScore\<close> (a term hit), statement by statement:
  the field multiplier, then the query weight, then the product with \<^verbatim>\<open>part[2]\<close>.
\<close>

definition field_multiplier :: "weight_map option \<Rightarrow> pyval list \<Rightarrow> py_error + real" where
  "field_multiplier field_parameters part =
     (if truthy field_parameters
      then (case item part 0 of
              Inl e \<Rightarrow> Inl e
            | Inr f \<Rightarrow> getitem (the field_parameters) f)
      else Inr 1)"

definition query_weight :: "weight_map option \<Rightarrow> pyval list \<Rightarrow> py_error + real" where
  "query_weight kw_parameters part =
     (if truthy kw_parameters
      then (if length part \<le> 3 then Inl ValueError
            else (case item part TERM_POSITION_IN_TUPLE of
                    Inl e \<Rightarrow> Inl e
                  | Inr term \<Rightarrow>
                      (case dict_get (the kw_parameters) term 0 of
                         Inl e \<Rightarrow> Inl e
                       | Inr w \<Rightarrow>
                           (case item part 1 of
                              Inl e \<Rightarrow> Inl e
                            | Inr q \<Rightarrow>
                                (case num_of q of
                                   Inl e \<Rightarrow> Inl e
                                 | Inr qw \<Rightarrow> Inr (w * qw))))))
      else (case item part 1 of
              Inl e \<Rightarrow> Inl e
            | Inr q \<Rightarrow> num_of q))"

definition hit_score :: "weight_map option \<Rightarrow> weight_map option \<Rightarrow> pyval list \<Rightarrow> py_error + real" where
  "hit_score field_parameters kw_parameters part =
     (case field_multiplier field_parameters part of
        Inl e \<Rightarrow> Inl e
      | Inr fm \<Rightarrow>
          (case query_weight kw_parameters part of
             Inl e \<Rightarrow> Inl e
           | Inr qw \<Rightarrow>
               (case item part 2 of
                  Inl e \<Rightarrow> Inl e
                | Inr f \<Rightarrow>
                    (case num_of f of
                       Inl e \<Rightarrow> Inl e
                     | Inr fw \<Rightarrow> Inr (qw * fm * fw)))))"

text \<open>
  The list comprehension over \<^verbatim>\<open>part["parts"]\<close> evaluates the children in order and
  is abandoned at the first child that raises.
\<close>

fun collect :: "(py_error + 'a) list \<Rightarrow> py_error + 'a list" where
  "collect [] = Inr []"
| "collect (Inl e # rs) = Inl e"
| "collect (Inr x # rs) = (case collect rs of Inl e \<Rightarrow> Inl e | Inr xs \<Rightarrow> Inr (x # xs))"

text \<open>
  \<^verbatim>\<open>reduce(lambda x, y: x * y, scores)\<close> has no initial value and raises
  \<^verbatim>\<open>TypeError\<close> on an empty list; \<^verbatim>\<open>sum\<close> starts from 0; \<^verbatim>\<open>max\<close> raises
  \<^verbatim>\<open>ValueError\<close> on an empty list.
\<close>

fun reduce_mult :: "real list \<Rightarrow> py_error + real" where
  "reduce_mult [] = Inl TypeError"
| "reduce_mult (x # xs) = Inr (foldl (\<lambda>x y. x * y) x xs)"

definition py_sum :: "real list \<Rightarrow> real" where
  "py_sum scores = foldl (\<lambda>x y. x + y) 0 scores"

fun py_max :: "real list \<Rightarrow> py_error + real" where
  "py_max [] = Inl ValueError"
| "py_max (x # xs) = Inr (foldl (\<lambda>m y. if y > m then y else m) x xs)"

text \<open>The three ways of combining the scores of the parts, chosen by \<^verbatim>\<open>part["type"]\<close>.\<close>

definition combine :: "pyval \<Rightarrow> real list \<Rightarrow> py_error + real" where
  "combine ty scores =
     (if ty = PStr ''*'' then reduce_mult scores
      else if ty = PStr ''+'' then Inr (py_sum scores)
      else py_max scores)"

lemma size_dict_value:
  "map_of kvs k = Some v \<Longrightarrow> size v < Suc (size_list (size_prod (\<lambda>_. 0) size) kvs)"
  by (induction kvs) (auto split: if_splits)

lemma size_seq_member:
  "x \<in> set xs \<Longrightarrow> size x < Suc (size_list size xs)"
  by (induction xs) auto

text \<open>
  \<^verbatim>\<open>computeScore\<close> on a part that is not \<^verbatim>\<open>None\<close>. The value of a
  \<^verbatim>\<open>"const"\<close> or \<^verbatim>\<open>"coord"\<close> node is returned as it is; the score type being
  real, a value that is neither \<^verbatim>\<open>None\<close> nor a number is reported as
  \<^verbatim>\<open>TypeError\<close>. The comprehension over \<^verbatim>\<open>part["parts"]\<close> iterates whatever is
  stored there: a string yields its characters and a dict its keys, which are strings
  and raise \<^verbatim>\<open>ValueError\<close> as parts; \<^verbatim>\<open>None\<close> and a number cannot be iterated.
  A \<^verbatim>\<open>None\<close> among the parts makes the source start again from the stored
  formula, from where it reaches the same \<^verbatim>\<open>None\<close> again: the call ends in Python's
  \<^verbatim>\<open>RecursionError\<close>.
\<close>

function computeScore :: "weight_map option \<Rightarrow> weight_map option \<Rightarrow> pyval \<Rightarrow> py_error + real" where
  "computeScore field_parameters kw_parameters (PSeq part) =
     hit_score field_parameters kw_parameters part"
| "computeScore field_parameters kw_parameters (PList part) =
     hit_score field_parameters kw_parameters part"
| "computeScore field_parameters kw_parameters (PDict part) =
     (case map_of part ''type'' of
        None \<Rightarrow> Inl KeyError
      | Some ty \<Rightarrow>
          if ty \<in> set [PStr ''*'', PStr ''+'', PStr ''max''] then
            (case map_of part ''parts'' of
               None \<Rightarrow> Inl KeyError
             | Some (PSeq sub_parts) \<Rightarrow>
                 (case collect (map (computeScore field_parameters kw_parameters) sub_parts) of
                    Inl e \<Rightarrow> Inl e
                  | Inr scores \<Rightarrow> combine ty scores)
             | Some (PList sub_parts) \<Rightarrow>
                 (case collect (map (computeScore field_parameters kw_parameters) sub_parts) of
                    Inl e \<Rightarrow> Inl e
                  | Inr scores \<Rightarrow> combine ty scores)
             | Some (PStr s) \<Rightarrow> if s = [] then combine ty [] else Inl ValueError
             | Some (PDict kvs) \<Rightarrow> if kvs = [] then combine ty [] else Inl ValueError
             | Some _ \<Rightarrow> Inl TypeError)
          else if ty \<in> set [PStr ''const'', PStr ''coord''] then
            (case map_of part ''value'' of
               None \<Rightarrow> Inl KeyError
             | Some PNone \<Rightarrow> Inl AssertionError
             | Some (PNum v) \<Rightarrow> Inr v
             | Some _ \<Rightarrow> Inl TypeError)
          else Inl ValueError)"
| "computeScore field_parameters kw_parameters PNone = Inl RecursionError"
| "computeScore field_parameters kw_parameters (PNum x) = Inl ValueError"
| "computeScore field_parameters kw_parameters (PStr s) = Inl ValueError"
  by pat_completeness auto
termination
proof (relation "measure (\<lambda>(f, k, p). size p)", goal_cases)
  case 1
  show ?case by simp
next
  case (2 field_parameters kw_parameters part ty v sub_parts x)
  have "map_of part ''parts'' = Some (PSeq sub_parts)" using 2 by simp
  then have a: "size (PSeq sub_parts) < Suc (size_list (size_prod (\<lambda>_. 0) size) part)"
    by (rule size_dict_value)
  have "x \<in> set sub_parts" using 2 by simp
  then have b: "size x < Suc (size_list size sub_parts)"
    by (rule size_seq_member)
  from a b show ?case by simp
next
  case (3 field_parameters kw_parameters part ty v sub_parts x)
  have "map_of part ''parts'' = Some (PList sub_parts)" using 3 by simp
  then have a: "size (PList sub_parts) < Suc (size_list (size_prod (\<lambda>_. 0) size) part)"
    by (rule size_dict_value)
  have "x \<in> set sub_parts" using 3 by simp
  then have b: "size x < Suc (size_list size sub_parts)"
    by (rule size_seq_member)
  from a b show ?case by simp
qed

text \<open>
  The method itself, called as its docstring asks (\<^verbatim>\<open>part=None\<close>): the part is the
  stored formula. A stored formula that is itself \<^verbatim>\<open>None\<close> falls through to the last
  \<^verbatim>\<open>else\<close>.
\<close>

definition StoredFormula_computeScore ::
  "pyval \<Rightarrow> weight_map option \<Rightarrow> weight_map option \<Rightarrow> py_error + real" where
  "StoredFormula_computeScore formula field_parameters kw_parameters =
     (if formula = PNone then Inl ValueError
      else computeScore field_parameters kw_parameters formula)"

section \<open>Parsing an explanation\<close>

text \<open>
  The explanation returned by the search engine is a tree of details, each with a
  description, a numeric value and sub-details. The three regular expressions of
  \<^verbatim>\<open>fromElasticExplanation\<close> belong to Python's \<^verbatim>\<open>re\<close> library and are taken as
  parameters: \<open>weight_re\<close> gives groups 1 and 2 of
  \<^verbatim>\<open>weight\((.*?)\:(.*?)\sin\<close> (field name and term), \<open>idf_re\<close> the two numbers of
  \<^verbatim>\<open>idf\(docFreq=(\d+),\smaxDocs=(\d+).*?\)\<close>, and \<open>tf_re\<close> the match of
  \<^verbatim>\<open>tf\(freq=(.+?)\).*\<close> together with the conversion \<^verbatim>\<open>int(float(group 1))\<close>, which
  can raise.
\<close>

datatype detail = Detail (description: string) (dvalue: real) (details: "detail list")

datatype es_explanation = Explanation (matched: bool) (explanation: detail)

record regexes =
  weight_re :: "string \<Rightarrow> (string \<times> string) option"
  idf_re :: "string \<Rightarrow> (int \<times> int) option"
  tf_re :: "string \<Rightarrow> (py_error + int) option"

definition startswith :: "string \<Rightarrow> string \<Rightarrow> bool" where
  "startswith s p = (take (length p) s = p)"

text \<open>The inner \<^verbatim>\<open>for ... break\<close> loops: the first sub-detail whose description matches.\<close>

fun first_match :: "(string \<Rightarrow> 'a option) \<Rightarrow> detail list \<Rightarrow> 'a option" where
  "first_match re [] = None"
| "first_match re (d # ds) =
     (case re (description d) of Some m \<Rightarrow> Some m | None \<Rightarrow> first_match re ds)"

text \<open>Truth value of a variable that holds \<^verbatim>\<open>None\<close> or an int.\<close>

fun int_truthy :: "int option \<Rightarrow> bool" where
  "int_truthy None = False"
| "int_truthy (Some n) = (n \<noteq> 0)"

text \<open>
  The loop \<^verbatim>\<open>for element in elements\<close> that looks for \<^verbatim>\<open>tf\<close>, \<^verbatim>\<open>docFreq\<close> and
  \<^verbatim>\<open>maxDocs\<close>; the state is the triple of these three variables.
\<close>

fun scan_elements ::
  "regexes \<Rightarrow> detail list \<Rightarrow> int option \<times> int option \<times> int option \<Rightarrow>
   py_error + (int option \<times> int option \<times> int option)" where
  "scan_elements rx [] st = Inr st"
| "scan_elements rx (element # rest) (tf, docFreq, maxDocs) =
     (if int_truthy docFreq \<and> int_truthy tf then Inr (tf, docFreq, maxDocs)
      else
        (let (docFreq', maxDocs') =
               (case first_match (idf_re rx) (details element) of
                  Some (d, m) \<Rightarrow> (Some d, Some m)
                | None \<Rightarrow> (docFreq, maxDocs))
         in case first_match (tf_re rx) (details element) of
              None \<Rightarrow> scan_elements rx rest (tf, docFreq', maxDocs')
            | Some (Inl e) \<Rightarrow> Inl e
            | Some (Inr t) \<Rightarrow> scan_elements rx rest (Some t, docFreq', maxDocs')))"

fun opt_num :: "int option \<Rightarrow> pyval" where
  "opt_num None = PNone"
| "opt_num (Some n) = PNum (of_int n)"

text \<open>
  The leaf branch of \<^verbatim>\<open>iterateDetail\<close> once the weight expression has matched:
  \<^verbatim>\<open>detail["details"][0]\<close>, then either the short tuple of a \<^verbatim>\<open>fieldWeight\<close>
  detail or the long tuple with \<^verbatim>\<open>tf\<close>, \<^verbatim>\<open>docFreq\<close> and \<^verbatim>\<open>maxDocs\<close>. With
  \<^verbatim>\<open>save_terms\<close> the term is appended as the last component of either tuple.
\<close>

definition hit_tuple ::
  "regexes \<Rightarrow> bool \<Rightarrow> string \<Rightarrow> string \<Rightarrow> detail list \<Rightarrow> py_error + pyval" where
  "hit_tuple rx save_terms field_name term ds =
     (case ds of
        [] \<Rightarrow> Inl IndexError
      | elem # _ \<Rightarrow>
          if startswith (description elem) ''fieldWeight'' then
            (let qw = 1; fw = dvalue elem
             in if save_terms then Inr (PSeq [PStr field_name, PNum qw, PNum fw, PStr term])
                else Inr (PSeq [PStr field_name, PNum qw, PNum fw]))
          else
            (case details elem of
               e0 # e1 # _ \<Rightarrow>
                 (let qw = dvalue e0; fw = dvalue e1
                  in case scan_elements rx (details elem) (None, None, None) of
                       Inl e \<Rightarrow> Inl e
                     | Inr (tf, docFreq, maxDocs) \<Rightarrow>
                         if save_terms then
                           Inr (PSeq [PStr field_name, PNum qw, PNum fw, opt_num tf,
                                      opt_num docFreq, opt_num maxDocs, PStr term])
                         else
                           Inr (PSeq [PStr field_name, PNum qw, PNum fw, opt_num tf,
                                      opt_num docFreq, opt_num maxDocs]))
             | _ \<Rightarrow> Inl IndexError))"

text \<open>
  \<^verbatim>\<open>iterateDetail\<close>. A description that matches none of the branches leaves
  \<^verbatim>\<open>new_element\<close> unassigned, and the \<^verbatim>\<open>return\<close> raises \<^verbatim>\<open>UnboundLocalError\<close>.
\<close>

fun iterateDetail :: "regexes \<Rightarrow> bool \<Rightarrow> detail \<Rightarrow> py_error + pyval" where
  "iterateDetail rx save_terms (Detail desc v ds) =
     (if startswith desc ''coord'' then
        Inr (PDict [(''type'', PStr ''coord''), (''value'', PNum v)])
      else if startswith desc ''sum of'' then
        (case collect (map (iterateDetail rx save_terms) ds) of
           Inl e \<Rightarrow> Inl e
         | Inr parts \<Rightarrow> Inr (PDict [(''type'', PStr ''+''), (''parts'', PSeq parts)]))
      else if startswith desc ''product of'' then
        (case collect (map (iterateDetail rx save_terms) ds) of
           Inl e \<Rightarrow> Inl e
         | Inr parts \<Rightarrow> Inr (PDict [(''type'', PStr ''*''), (''parts'', PSeq parts)]))
      else if startswith desc ''max of'' then
        (case collect (map (iterateDetail rx save_terms) ds) of
           Inl e \<Rightarrow> Inl e
         | Inr parts \<Rightarrow> Inr (PDict [(''type'', PStr ''max''), (''parts'', PSeq parts)]))
      else
        (case weight_re rx desc of
           Some (field_name, term) \<Rightarrow> hit_tuple rx save_terms field_name term ds
         | None \<Rightarrow>
             if startswith desc ''match on required clause, product of'' then
               Inr (PDict [(''type'', PStr ''const''), (''value'', PNum v)])
             else Inl UnboundLocalError))"

text \<open>
  \<^verbatim>\<open>fromElasticExplanation\<close>: the result is the new value of \<^verbatim>\<open>self.formula\<close>.
  An explanation that did not match is stored as \<^verbatim>\<open>{"coord": 0, "matches": []}\<close>.
\<close>

definition fromElasticExplanation :: "regexes \<Rightarrow> es_explanation \<Rightarrow> bool \<Rightarrow> py_error + pyval" where
  "fromElasticExplanation rx expl save_terms =
     (if \<not> matched expl then Inr (PDict [(''coord'', PNum 0), (''matches'', PSeq [])])
      else iterateDetail rx save_terms (explanation expl))"

section \<open>The weight optimizer\<close>

subsection \<open>One sweep of the search\<close>

text \<open>
  The inner loops of \<^verbatim>\<open>WeightTrainer.dynamicWeightValues\<close>
  (\<^verbatim>\<open>evaluation/weight_training.py\<close>) work on three local variables: the dict
  \<^verbatim>\<open>weights\<close>, \<^verbatim>\<open>previous_score\<close> and \<^verbatim>\<open>this_score\<close>. The weights start at the
  int 1 and are moved by int steps, so they are ints; the dict is the list of its
  entries in insertion order, and \<^verbatim>\<open>list(weights.keys())[index]\<close> and
  \<^verbatim>\<open>weights[weight_name]\<close> are the two components of the entry at position
  \<^verbatim>\<open>index\<close>. \<^verbatim>\<open>this_score\<close> is not assigned before the loops, hence optional.

  The score of a weight vector,
  \<^verbatim>\<open>measurePrecomputedResolution(train_set, method, addExtraWeights(weights, self.exp), query_type)[0][self.exp["metric"]]\<close>,
  depends on \<^verbatim>\<open>ResultsLogger\<close>, \<^verbatim>\<open>runPrecomputedQuery\<close> and \<^verbatim>\<open>addExtraWeights\<close>,
  which belong to other modules of the repository. It is the parameter \<open>m\<close>: a function of the
  weights that returns a number and leaves the dict as it is.
\<close>

record trial_state =
  weights :: "(string \<times> int) list"
  previous_score :: real
  this_score :: "real option"

definition MIN_WEIGHT :: int where
  "MIN_WEIGHT = 0"

text \<open>The body of \<^verbatim>\<open>for index in range(len(weights))\<close>.\<close>

definition trial ::
  "((string \<times> int) list \<Rightarrow> real) \<Rightarrow> int \<Rightarrow> 'a trial_state_scheme \<Rightarrow> nat \<Rightarrow> 'a trial_state_scheme" where
  "trial m direction st index =
     (let weight_name = fst (weights st ! index);
          prev_weight = snd (weights st ! index);
          ws = (weights st)[index := (weight_name, max MIN_WEIGHT (prev_weight + direction))];
          score = m ws
      in if score \<le> previous_score st
         then st\<lparr>weights := ws[index := (weight_name, prev_weight)], this_score := Some score\<rparr>
         else st\<lparr>weights := ws, previous_score := score, this_score := Some score\<rparr>)"

text \<open>\<^verbatim>\<open>for direction in self.exp["movements"]: for index in range(len(weights)): ...\<close>\<close>

definition sweep ::
  "((string \<times> int) list \<Rightarrow> real) \<Rightarrow> int list \<Rightarrow> 'a trial_state_scheme \<Rightarrow> 'a trial_state_scheme" where
  "sweep m movements st =
     foldl (\<lambda>st direction. foldl (trial m direction) st [0..<length (weights st)]) st movements"

subsection \<open>The sweep loop\<close>

record loop_state = trial_state +
  score_baseline :: real
  overall_improvement :: real
  passes :: nat
  score_progression :: "real list"

text \<open>
  The statements after the two \<^verbatim>\<open>for\<close> loops, once \<^verbatim>\<open>this_score\<close> is known to be
  assigned. (\<^verbatim>\<open>GLOBAL_FILE_COUNTER\<close>, which only numbers exported files, is left out.)
\<close>

definition end_of_sweep :: "loop_state \<Rightarrow> loop_state" where
  "end_of_sweep st =
     st\<lparr>overall_improvement := the (this_score st) - score_baseline st,
        score_baseline := the (this_score st),
        score_progression := score_progression st @ [the (this_score st)],
        passes := passes st + 1\<rparr>"

definition full_sweep :: "((string \<times> int) list \<Rightarrow> real) \<Rightarrow> int list \<Rightarrow> loop_state \<Rightarrow> loop_state" where
  "full_sweep m movements st = end_of_sweep (sweep m movements st)"

text \<open>
  \<^verbatim>\<open>while passes < 3 or overall_improvement > 0\<close>. The loop has no bound, so the
  result is optional: \<open>None\<close> stands for a loop that never ends. Reading
  \<^verbatim>\<open>this_score\<close> while it is unassigned (no trial has run) raises
  \<^verbatim>\<open>UnboundLocalError\<close>.
\<close>

partial_function (option) sweep_loop ::
  "((string \<times> int) list \<Rightarrow> real) \<Rightarrow> int list \<Rightarrow> loop_state \<Rightarrow> (py_error + loop_state) option" where
  "sweep_loop m movements st =
     (if passes st < 3 \<or> overall_improvement st > 0
      then (if this_score (sweep m movements st) = None then Some (Inl UnboundLocalError)
            else sweep_loop m movements (full_sweep m movements st))
      else Some (Inr st))"

text \<open>
  The state in which the loop is entered: the score of the initial weights is the first
  \<^verbatim>\<open>score_baseline\<close>, \<^verbatim>\<open>previous_score\<close> and \<^verbatim>\<open>overall_improvement\<close>.
  \<open>stale\<close> is what \<^verbatim>\<open>this_score\<close> holds from an earlier method, if anything.
\<close>

definition initial_state :: "((string \<times> int) list \<Rightarrow> real) \<Rightarrow> (string \<times> int) list \<Rightarrow> real option \<Rightarrow> loop_state" where
  "initial_state m ws stale =
     \<lparr>weights = ws, previous_score = m ws, this_score = stale,
      score_baseline = m ws, overall_improvement = m ws, passes = 0,
      score_progression = [m ws]\<rparr>"

subsection \<open>Smoothing\<close>

text \<open>
  The body of the loop under \<^verbatim>\<open>if self.exp.get("smooth_weights", None)\<close>, for one
  weight; the division by \<^verbatim>\<open>float(3)\<close> is a division of reals.
\<close>

definition smooth_weight :: "real \<Rightarrow> real" where
  "smooth_weight w =
     (let amount = \<bar>min 1 w / 3\<bar>
      in if w > 1 then w - amount
         else if w < 1 then w + amount
         else w)"

definition smooth :: "(string \<times> real) list \<Rightarrow> (string \<times> real) list" where
  "smooth best = map (\<lambda>(weight, w). (weight, smooth_weight w)) best"

subsection \<open>Selecting the fold\<close>

text \<open>
  Both \<^verbatim>\<open>dynamicWeightValues\<close> and \<^verbatim>\<open>measureScoresOfWeights\<close> build the split with
  \<^verbatim>\<open>model_selection.KFold(n_splits=numfolds, shuffle=False, random_state=None)\<close> of
  scikit-learn. The library is described as documented: the constructor rejects
  \<^verbatim>\<open>n_splits <= 1\<close> with \<^verbatim>\<open>ValueError\<close>; \<^verbatim>\<open>split(X)\<close> is a generator that, for
  \<open>n\<close> samples, raises \<^verbatim>\<open>ValueError\<close> when \<open>n < n_splits\<close> and otherwise yields
  one pair (train indices, test indices) per fold, the test indices being consecutive
  blocks of \<open>[0, n)\<close> of which the first \<open>n mod n_splits\<close> have one element more.
\<close>

datatype kfold = KFold_object nat

definition KFold :: "int \<Rightarrow> py_error + kfold" where
  "KFold n_splits = (if n_splits \<le> 1 then Inl ValueError else Inr (KFold_object (nat n_splits)))"

definition fold_sizes :: "nat \<Rightarrow> nat \<Rightarrow> nat list" where
  "fold_sizes n k = map (\<lambda>i. n div k + (if i < n mod k then 1 else 0)) [0..<k]"

fun test_folds :: "nat \<Rightarrow> nat list \<Rightarrow> nat list list" where
  "test_folds current [] = []"
| "test_folds current (fold_size # rest) =
     [current..<current + fold_size] # test_folds (current + fold_size) rest"

fun split :: "kfold \<Rightarrow> nat \<Rightarrow> py_error + (nat list \<times> nat list) list" where
  "split (KFold_object k) n =
     (if n < k then Inl ValueError
      else Inr (map (\<lambda>test. (filter (\<lambda>i. i \<notin> set test) [0..<n], test))
                    (test_folds 0 (fold_sizes n k))))"

text \<open>
  \<^verbatim>\<open>zip(iterable)\<close> wraps the generator in an iterator (of 1-tuples) without running
  it. An iterator has no \<^verbatim>\<open>__getitem__\<close>: subscripting it raises \<^verbatim>\<open>TypeError\<close>.
  (Under Python 2, where \<^verbatim>\<open>zip\<close> returns a list, \<^verbatim>\<open>cv[split_fold]\<close> is a 1-tuple
  and unpacking it into two names raises \<^verbatim>\<open>ValueError\<close>; no pair is obtained either
  way.) A \<^verbatim>\<open>KFold\<close> object has no \<^verbatim>\<open>__iter__\<close>: iterating it raises
  \<^verbatim>\<open>TypeError\<close>.
\<close>

datatype 'a zip_object = Zip "py_error + 'a list"

fun zip_getitem :: "'a zip_object \<Rightarrow> int \<Rightarrow> py_error + 'a" where
  "zip_getitem (Zip generator) i = Inl TypeError"

fun kfold_iter :: "kfold \<Rightarrow> py_error + (nat list \<times> nat list) list" where
  "kfold_iter (KFold_object k) = Inl TypeError"

text \<open>
  The precomputed results are either an incremental reader or a list; anything else
  is refused. \<^verbatim>\<open>subset(indices)\<close> of the reader belongs to another module and is
  taken to pick the listed positions, as the list comprehension of the other branch.
\<close>

datatype 'r results = Incremental_reader "'r list" | Plain_list "'r list" | Other_results "'r list"

fun records :: "'r results \<Rightarrow> 'r list" where
  "records (Incremental_reader rs) = rs"
| "records (Plain_list rs) = rs"
| "records (Other_results rs) = rs"

fun subset :: "'r results \<Rightarrow> nat list \<Rightarrow> py_error + 'r list" where
  "subset (Incremental_reader rs) idx = Inr (map (\<lambda>i. rs ! i) idx)"
| "subset (Plain_list rs) idx = Inr (map (\<lambda>i. rs ! i) idx)"
| "subset (Other_results rs) idx = Inl ValueError"

text \<open>Lines 70 to 79 of \<^verbatim>\<open>dynamicWeightValues\<close>: the training set of fold \<open>split_fold\<close>.\<close>

definition train_fold :: "int \<Rightarrow> 'r results \<Rightarrow> int \<Rightarrow> py_error + 'r list" where
  "train_fold numfolds retrieval_results split_fold =
     (case KFold numfolds of
        Inl e \<Rightarrow> Inl e
      | Inr cv \<Rightarrow>
          (case zip_getitem (Zip (split cv (length (records retrieval_results)))) split_fold of
             Inl e \<Rightarrow> Inl e
           | Inr (traincv, testcv) \<Rightarrow> subset retrieval_results traincv))"

text \<open>Lines 239 to 247 of \<^verbatim>\<open>measureScoresOfWeights\<close>: the test set of fold \<open>split_fold\<close>.\<close>

definition test_fold :: "int \<Rightarrow> 'r results \<Rightarrow> nat \<Rightarrow> py_error + 'r list" where
  "test_fold numfolds retrieval_results split_fold =
     (case KFold numfolds of
        Inl e \<Rightarrow> Inl e
      | Inr cv \<Rightarrow>
          (case kfold_iter cv of
             Inl e \<Rightarrow> Inl e
           | Inr cv_list \<Rightarrow>
               if split_fold < length cv_list
               then subset retrieval_results (snd (cv_list ! split_fold))
               else Inl IndexError))"

subsection \<open>The whole of \<^verbatim>\<open>dynamicWeightValues\<close>\<close>

text \<open>
  The experiment configuration \<^verbatim>\<open>self.exp\<close>, with the options the method reads:
  \<^verbatim>\<open>cross_validation_folds\<close> is optional (default 2), \<^verbatim>\<open>smooth_weights\<close> is the truth
  value of \<^verbatim>\<open>self.exp.get("smooth_weights", None)\<close>.
\<close>

record 'd exp_config =
  doc_methods :: 'd
  movements :: "int list"
  cross_validation_folds :: "int option"
  train_weights_for :: "string list"
  smooth_weights :: bool
  metric :: string

text \<open>
  What the method calls in other modules is a parameter:
  \<open>getDictOfTestingMethods\<close> gives for each method its type and the names of its
  runtime parameters; \<open>loadPrecomputedFormulas\<close> reads the stored results of a query
  type; \<open>evaluate self_exp train_set method weights query_type\<close> stands for
  \<^verbatim>\<open>measurePrecomputedResolution(train_set, method, addExtraWeights(weights, self.exp), query_type)[0][self.exp["metric"]]\<close>;
  \<open>addExtraWeights\<close> is the function of that name.
\<close>

record ('d, 'r) trainer =
  getDictOfTestingMethods :: "'d \<Rightarrow> (string \<times> string \<times> string list) list"
  loadPrecomputedFormulas :: "'d exp_config \<Rightarrow> string \<Rightarrow> 'r results"
  evaluate :: "'d exp_config \<Rightarrow> 'r list \<Rightarrow> string \<Rightarrow> (string \<times> int) list \<Rightarrow> string \<Rightarrow> real"
  addExtraWeights :: "(string \<times> int) list \<Rightarrow> 'd exp_config \<Rightarrow> (string \<times> real) list"

text \<open>
  The body of \<^verbatim>\<open>for method in annotated_boost_methods\<close> for the one initialization
  method in use (all weights 1): the result is the entry
  \<^verbatim>\<open>best_weights[query_type][method]\<close> and the last value of \<^verbatim>\<open>this_score\<close>.
  Printing and the bookkeeping that feeds only printing (\<^verbatim>\<open>results_compare\<close>,
  \<^verbatim>\<open>improvement\<close>) are left out. The assignment
  \<^verbatim>\<open>all_doc_methods[method]["runtime_parameters"]=weights\<close> replaces the names by a dict
  with these names as keys, which a later dict comprehension reads as the same names.
\<close>

definition train_method ::
  "('d, 'r) trainer \<Rightarrow> 'd exp_config \<Rightarrow> 'r list \<Rightarrow> string \<Rightarrow> string \<Rightarrow> string list \<Rightarrow> real option \<Rightarrow>
   (py_error + (string \<times> real) list \<times> real) option" where
  "train_method env self_exp train_set query_type method runtime_parameters stale =
     (let ws = foldl (\<lambda>d x. AList.update x 1 d) [] runtime_parameters;
          m = (\<lambda>ws. evaluate env self_exp train_set method ws query_type)
      in case sweep_loop m (movements self_exp) (initial_state m ws stale) of
           None \<Rightarrow> None
         | Some (Inl e) \<Rightarrow> Some (Inl e)
         | Some (Inr st) \<Rightarrow>
             (let score = m (weights st);
                  best = addExtraWeights env (weights st) self_exp
              in Some (Inr (if smooth_weights self_exp then smooth best else best, score))))"

fun train_methods ::
  "('d, 'r) trainer \<Rightarrow> 'd exp_config \<Rightarrow> 'r list \<Rightarrow> string \<Rightarrow> (string \<times> string \<times> string list) list \<Rightarrow>
   string list \<Rightarrow> (string \<times> (string \<times> real) list) list \<Rightarrow> real option \<Rightarrow>
   (py_error + (string \<times> (string \<times> real) list) list \<times> real option) option" where
  "train_methods env self_exp train_set query_type all_doc_methods [] best stale = Some (Inr (best, stale))"
| "train_methods env self_exp train_set query_type all_doc_methods (method # rest) best stale =
     (case map_of all_doc_methods method of
        None \<Rightarrow> Some (Inl KeyError)
      | Some (ty, runtime_parameters) \<Rightarrow>
          (case train_method env self_exp train_set query_type method runtime_parameters stale of
             None \<Rightarrow> None
           | Some (Inl e) \<Rightarrow> Some (Inl e)
           | Some (Inr (found, score)) \<Rightarrow>
               train_methods env self_exp train_set query_type all_doc_methods rest
                 (AList.update method found best) (Some score)))"

text \<open>
  The value returned: the dict \<^verbatim>\<open>best_weights\<close>, or \<^verbatim>\<open>defaultdict(lambda:1)\<close> when a
  training set is empty.
\<close>

datatype best_weights =
    Best_weights "(string \<times> (string \<times> (string \<times> real) list) list) list"
  | All_ones

fun train_query_types ::
  "('d, 'r) trainer \<Rightarrow> 'd exp_config \<Rightarrow> int \<Rightarrow> (string \<times> string \<times> string list) list \<Rightarrow> string list \<Rightarrow>
   int \<Rightarrow> string list \<Rightarrow> (string \<times> (string \<times> (string \<times> real) list) list) list \<Rightarrow> real option \<Rightarrow>
   (py_error + best_weights) option" where
  "train_query_types env self_exp split_fold all_doc_methods annotated_boost_methods numfolds [] best stale =
     Some (Inr (Best_weights best))"
| "train_query_types env self_exp split_fold all_doc_methods annotated_boost_methods numfolds
     (query_type # rest) best stale =
     (let best = AList.update query_type [] best;
          retrieval_results = loadPrecomputedFormulas env self_exp query_type
      in if length (records retrieval_results) = 0 then
           train_query_types env self_exp split_fold all_doc_methods annotated_boost_methods numfolds
             rest best stale
         else if int (length (records retrieval_results)) < numfolds then
           train_query_types env self_exp split_fold all_doc_methods annotated_boost_methods numfolds
             rest best stale
         else
           (case train_fold numfolds retrieval_results split_fold of
              Inl e \<Rightarrow> Some (Inl e)
            | Inr train_set \<Rightarrow>
                if length train_set = 0 then Some (Inr All_ones)
                else
                  (case train_methods env self_exp train_set query_type all_doc_methods
                          annotated_boost_methods [] stale of
                     None \<Rightarrow> None
                   | Some (Inl e) \<Rightarrow> Some (Inl e)
                   | Some (Inr (found, stale')) \<Rightarrow>
                       train_query_types env self_exp split_fold all_doc_methods
                         annotated_boost_methods numfolds rest
                         (AList.update query_type found best) stale')))"

text \<open>
  The method. After the loop over the query types it prints an average of
  \<^verbatim>\<open>results_compare\<close>, a variable assigned at the top of the loop body only: without a
  query type to train for, reading it raises \<^verbatim>\<open>UnboundLocalError\<close>.
\<close>

definition dynamicWeightValues ::
  "('d, 'r) trainer \<Rightarrow> 'd exp_config \<Rightarrow> int \<Rightarrow> (py_error + best_weights) option" where
  "dynamicWeightValues env self_exp split_fold =
     (let all_doc_methods = getDictOfTestingMethods env (doc_methods self_exp);
          annotated_boost_methods =
            map fst (filter (\<lambda>(x, ty, ps). ty \<in> set [''annotated_boost'']) all_doc_methods);
          self_exp = self_exp\<lparr>movements := [-1, 6, -2]\<rparr>;
          numfolds = (case cross_validation_folds self_exp of None \<Rightarrow> 2 | Some k \<Rightarrow> k)
      in if train_weights_for self_exp = [] then Some (Inl UnboundLocalError)
         else train_query_types env self_exp split_fold all_doc_methods annotated_boost_methods
                numfolds (train_weights_for self_exp) [] None)"

section \<open>Measuring a weight vector on precomputed results\<close>

text \<open>
  A precomputed result and the \<^verbatim>\<open>result_dict\<close> built from it are Python dicts with
  string keys; reading a key that is missing raises \<^verbatim>\<open>KeyError\<close>.
\<close>

type_synonym py_dict = "(string \<times> pyval) list"

definition dict_item :: "py_dict \<Rightarrow> string \<Rightarrow> py_error + pyval" where
  "dict_item d k = (case map_of d k of None \<Rightarrow> Inl KeyError | Some v \<Rightarrow> Inr v)"

text \<open>
  \<^verbatim>\<open>runPrecomputedQuery\<close> and the \<^verbatim>\<open>ResultsLogger\<close> belong to other modules.
  The logger is a state of some type \<open>'l\<close> with the operations the method calls, each
  of which may raise: \<open>new_logger n\<close> is the logger after construction,
  \<^verbatim>\<open>startCounting()\<close> and \<^verbatim>\<open>setNumItems(n)\<close>; \<open>averages\<close> reads
  \<^verbatim>\<open>logger.averages\<close>, a dict of dicts of dicts; \<open>precision_total\<close> reads
  \<^verbatim>\<open>logger.scores["precision"][query_method][doc_method]\<close>. The list \<^verbatim>\<open>retrieved\<close>
  may be \<^verbatim>\<open>None\<close>.
\<close>

record ('p, 'c, 'l) scorer =
  runPrecomputedQuery :: "pyval \<Rightarrow> 'p \<Rightarrow> py_error + 'c list option"
  new_logger :: "nat \<Rightarrow> 'l"
  addResolutionResultDict :: "py_dict \<Rightarrow> 'l \<Rightarrow> py_error + 'l"
  measureScoreAndLog :: "'c list \<Rightarrow> pyval \<Rightarrow> py_dict \<Rightarrow> 'l \<Rightarrow> py_error + 'l"
  computeAverageScores :: "'l \<Rightarrow> py_error + 'l"
  averages :: "'l \<Rightarrow> (string \<times> (string \<times> (string \<times> real) list) list) list"
  precision_total :: "'l \<Rightarrow> string \<Rightarrow> string \<Rightarrow> py_error + real"

text \<open>
  The dict literal \<^verbatim>\<open>result_dict={"file_guid":result["file_guid"], ...}\<close>: its eight
  keys in order, each read from the result but \<^verbatim>\<open>"doc_method"\<close>, which is the method.
\<close>

definition result_dict_keys :: "string list" where
  "result_dict_keys =
     [''file_guid'', ''citation_id'', ''doc_position'', ''query_method'', ''doc_method'',
      ''az'', ''cfc'', ''match_guids'']"

definition make_result_dict :: "py_dict \<Rightarrow> string \<Rightarrow> py_error + py_dict" where
  "make_result_dict result method =
     (case collect (map (\<lambda>k. if k = ''doc_method'' then Inr (PStr method) else dict_item result k)
                        result_dict_keys) of
        Inl e \<Rightarrow> Inl e
      | Inr vs \<Rightarrow> Inr (zip result_dict_keys vs))"

text \<open>The branch of an empty \<^verbatim>\<open>retrieved\<close>: the five keys added to \<^verbatim>\<open>result_dict\<close>.\<close>

definition empty_query_dict :: "py_dict \<Rightarrow> py_dict" where
  "empty_query_dict result_dict =
     AList.update ''first_result'' (PStr [])
       (AList.update ''rank'' (PNum 0)
          (AList.update ''ndcg_score'' (PNum 0)
             (AList.update ''precision_score'' (PNum 0)
                (AList.update ''mrr_score'' (PNum 0) result_dict))))"

text \<open>
  The body of \<^verbatim>\<open>for result in retrieval_results\<close>, as a step on the logger. A result
  without \<^verbatim>\<open>"formulas"\<close> is skipped; \<^verbatim>\<open>result["citation_multi"]\<close> is read only when
  there are candidates.
\<close>

definition measure_result ::
  "('p, 'c, 'l) scorer \<Rightarrow> string \<Rightarrow> 'p \<Rightarrow> 'l \<Rightarrow> py_dict \<Rightarrow> py_error + 'l" where
  "measure_result env method parameters logger result =
     (case map_of result ''formulas'' of
        None \<Rightarrow> Inr logger
      | Some fs \<Rightarrow>
          (case runPrecomputedQuery env fs parameters of
             Inl e \<Rightarrow> Inl e
           | Inr retrieved \<Rightarrow>
               (case make_result_dict result method of
                  Inl e \<Rightarrow> Inl e
                | Inr result_dict \<Rightarrow>
                    if retrieved = None \<or> length (the retrieved) = 0
                    then addResolutionResultDict env (empty_query_dict result_dict) logger
                    else (case dict_item result ''citation_multi'' of
                            Inl e \<Rightarrow> Inl e
                          | Inr citation_multi \<Rightarrow>
                              measureScoreAndLog env (the retrieved) citation_multi
                                result_dict logger))))"

text \<open>The loop itself: it is abandoned at the first result that raises.\<close>

fun measure_loop ::
  "('p, 'c, 'l) scorer \<Rightarrow> string \<Rightarrow> 'p \<Rightarrow> 'l \<Rightarrow> py_dict list \<Rightarrow> py_error + 'l" where
  "measure_loop env method parameters logger [] = Inr logger"
| "measure_loop env method parameters logger (result # rest) =
     (case measure_result env method parameters logger result of
        Inl e \<Rightarrow> Inl e
      | Inr logger' \<Rightarrow> measure_loop env method parameters logger' rest)"

text \<open>The lines after the loop: the averages, and one data line for each pair of methods.\<close>

definition data_line ::
  "('p, 'c, 'l) scorer \<Rightarrow> 'l \<Rightarrow> string \<Rightarrow> string \<Rightarrow> string \<Rightarrow> (string \<times> real) list \<Rightarrow>
   py_error + py_dict" where
  "data_line env logger citation_az qmethod dmethod metrics =
     (case precision_total env logger qmethod dmethod of
        Inl e \<Rightarrow> Inl e
      | Inr precision \<Rightarrow>
          Inr (AList.update ''precision_total'' (PNum precision)
                 (foldl (\<lambda>line (metric, v). AList.update (''avg_'' @ metric) (PNum v) line)
                    [(''query_method'', PStr qmethod), (''doc_method'', PStr dmethod),
                     (''citation_az'', PStr citation_az)]
                    metrics)))"

definition report :: "('p, 'c, 'l) scorer \<Rightarrow> string \<Rightarrow> 'l \<Rightarrow> py_error + py_dict list" where
  "report env citation_az logger =
     (case computeAverageScores env logger of
        Inl e \<Rightarrow> Inl e
      | Inr logger \<Rightarrow>
          collect (concat (map (\<lambda>(qmethod, by_doc_method).
                                  map (\<lambda>(dmethod, metrics).
                                         data_line env logger citation_az qmethod dmethod metrics)
                                      by_doc_method)
                               (averages env logger))))"

definition measurePrecomputedResolution ::
  "('p, 'c, 'l) scorer \<Rightarrow> py_dict list \<Rightarrow> string \<Rightarrow> 'p \<Rightarrow> string \<Rightarrow> py_error + py_dict list" where
  "measurePrecomputedResolution env retrieval_results method parameters citation_az =
     (case measure_loop env method parameters (new_logger env (length retrieval_results))
             retrieval_results of
        Inl e \<Rightarrow> Inl e
      | Inr logger \<Rightarrow> report env citation_az logger)"

section \<open>Notions used in the proofs\<close>

text \<open>
  Between the states before and after some trials, either nothing was accepted (weights
  and accepted score are as before) or the accepted score has grown to another value of
  the metric.
\<close>

definition progress ::
  "((string \<times> int) list \<Rightarrow> real) \<Rightarrow> 'a trial_state_scheme \<Rightarrow> 'a trial_state_scheme \<Rightarrow> bool" where
  "progress m st st' \<longleftrightarrow>
     length (weights st') = length (weights st) \<and>
     (weights st' = weights st \<and> previous_score st' = previous_score st \<or>
      previous_score st < previous_score st' \<and> previous_score st' \<in> range m)"







definition step_metric :: "(string \<times> int) list \<Rightarrow> real" where
  "step_metric ws = (if 3 \<le> sum_list (map snd ws) then 1 else 0)"


section \<open>Properties of the recomputation\<close>

subsection \<open>Term hits\<close>

text \<open>
  Claim C1, as amended. For a hit tuple \<open>(field, qw, fw, ...)\<close> the score is
  \<open>query * multiplier * fw\<close>. The multiplier is 1 when no field map or an empty one is
  given; otherwise it is the map's own answer for \<open>field\<close>: the stored weight, or, for
  a missing field, \<^verbatim>\<open>KeyError\<close> from a plain dict and the factory's value from a
  \<^verbatim>\<open>defaultdict\<close>. \<open>query\<close> is \<open>qw\<close> when no term map or an empty one is given;
  with a non-empty term map and the term at position 6 of the tuple it is the term's
  weight (0 for a term that is not in the map) times \<open>qw\<close>.
\<close>

theorem hit_score_formula:
  assumes "truthy kw \<longrightarrow> 3 < length rest \<and> rest ! 3 = PStr term"
  shows "computeScore fp kw (PSeq (PStr field # PNum qw # PNum fw # rest)) =
     (let query = (if truthy kw
                   then (case map_of (entries (the kw)) term of Some w \<Rightarrow> w | None \<Rightarrow> 0) * qw
                   else qw)
      in if \<not> truthy fp then Inr (query * 1 * fw)
         else case map_of (entries (the fp)) field of
                Some m \<Rightarrow> Inr (query * m * fw)
              | None \<Rightarrow> (case the fp of
                            Dict kvs \<Rightarrow> Inl KeyError
                          | DefaultDict d kvs \<Rightarrow> Inr (query * d * fw)))"
  using assms
  by (auto simp: hit_score_def field_multiplier_def query_weight_def item_def
      TERM_POSITION_IN_TUPLE_def Let_def numeral_eq_Suc
      split: option.splits weight_map.splits)

text \<open>
  The amended claim C1 at a hit on field \<open>text\<close> for the term \<open>foo\<close>, with the field
  weight 2 and the term weight 3: the score is \<open>3 * (1/2) * 2 * 4\<close>.
\<close>

theorem hit_score_formula_witness:
  "(truthy (Some (Dict [(''foo'', 3)])) \<and> 3 < length [PNum 1, PNum 10, PNum 100, PStr ''foo'']
      \<and> [PNum 1, PNum 10, PNum 100, PStr ''foo''] ! 3 = PStr ''foo'')
   \<and> computeScore (Some (Dict [(''text'', 2)])) (Some (Dict [(''foo'', 3)]))
        (PSeq [PStr ''text'', PNum (1 / 2), PNum 4, PNum 1, PNum 10, PNum 100, PStr ''foo''])
      = Inr 12"
proof -
  have h: "truthy (Some (Dict [(''foo'', 3)])) \<longrightarrow>
           3 < length [PNum 1, PNum 10, PNum 100, PStr ''foo'']
           \<and> [PNum 1, PNum 10, PNum 100, PStr ''foo''] ! 3 = PStr ''foo''"
    by simp
  show ?thesis
    using hit_score_formula[OF h, of "Some (Dict [(''text'', 2)])" "''text''" "1 / 2" 4]
    by simp
qed

text \<open>
  Claim C1 as stated fails: with the plain dict \<^verbatim>\<open>{"abstract": 2}\<close> as field map, the
  hit \<^verbatim>\<open>("title", 2, 3)\<close> does not score \<open>2 * 1.0 * 3\<close>; the lookup of the missing
  field raises \<^verbatim>\<open>KeyError\<close>.
\<close>

theorem missing_field_raises:
  "computeScore (Some (Dict [(''abstract'', 2)])) None (PSeq [PStr ''title'', PNum 2, PNum 3])
     = Inl KeyError
   \<and> computeScore (Some (Dict [(''abstract'', 2)])) None (PSeq [PStr ''title'', PNum 2, PNum 3])
     \<noteq> Inr (2 * 1 * 3)"
  by (simp add: hit_score_def field_multiplier_def query_weight_def item_def)

text \<open>
  A hit without a term is never scored under a non-empty term map: a tuple of up to
  three components raises \<^verbatim>\<open>ValueError\<close>, a longer one with fewer than seven
  components raises \<^verbatim>\<open>IndexError\<close> at position 6, unless the field lookup has
  raised before.
\<close>

lemma hit_without_term_raises:
  assumes "truthy kw" and "length part < 7"
  shows "\<exists>e. computeScore fp kw (PSeq part) = Inl e"
  using assms
  by (auto simp: hit_score_def query_weight_def item_def TERM_POSITION_IN_TUPLE_def
      split: sum.splits)

text \<open>
  Claim C5. Under a non-empty term map, a hit that carries its term should be scored.
  The explanation of a \<^verbatim>\<open>fieldWeight\<close> hit on \<^verbatim>\<open>text:foo\<close>, parsed with
  \<^verbatim>\<open>save_terms=True\<close>, is stored as the 4-tuple \<^verbatim>\<open>("text", 1.0, 0.5, "foo")\<close>; recomputing
  it with the term map \<^verbatim>\<open>{"foo": 2}\<close> passes the length check and raises
  \<^verbatim>\<open>IndexError\<close> at \<^verbatim>\<open>part[TERM_POSITION_IN_TUPLE]\<close>.
\<close>

theorem stored_term_not_found:
  "fromElasticExplanation
      \<lparr>weight_re = (\<lambda>s. if s = ''weight(text:foo in 12) [PerFieldSimilarity], result of:''
                         then Some (''text'', ''foo'') else None),
       idf_re = (\<lambda>s. None), tf_re = (\<lambda>s. None)\<rparr>
      (Explanation True
         (Detail ''weight(text:foo in 12) [PerFieldSimilarity], result of:'' (1 / 2)
            [Detail ''fieldWeight in 12, product of:'' (1 / 2) []]))
      True
     = Inr (PSeq [PStr ''text'', PNum 1, PNum (1 / 2), PStr ''foo''])
   \<and> StoredFormula_computeScore (PSeq [PStr ''text'', PNum 1, PNum (1 / 2), PStr ''foo''])
        None (Some (Dict [(''foo'', 2)])) = Inl IndexError"
  by (simp add: fromElasticExplanation_def startswith_def hit_tuple_def
      StoredFormula_computeScore_def hit_score_def field_multiplier_def query_weight_def item_def
      TERM_POSITION_IN_TUPLE_def)

subsection \<open>Combined nodes\<close>

lemma collect_map_Inr: "collect (map Inr xs) = Inr xs"
  by (induction xs) auto

lemma foldl_mult_prod_list: "foldl (\<lambda>x y. x * y) (a::real) xs = a * prod_list xs"
  by (induction xs arbitrary: a) (auto simp: mult.assoc)

lemma py_sum_sum_list: "py_sum scores = sum_list scores"
proof -
  have "foldl (\<lambda>x y. x + y) (a::real) xs = a + sum_list xs" for a xs
    by (induction xs arbitrary: a) (auto simp: add.assoc)
  then show ?thesis by (simp add: py_sum_def)
qed

lemma foldl_greater_Max:
  "foldl (\<lambda>m y. if y > m then y else m) (a::real) xs = Max (set (a # xs))"
proof (induction xs arbitrary: a)
  case Nil
  then show ?case by simp
next
  case (Cons x xs)
  have "(if a < x then x else a) = max a x" by (simp add: max_def)
  then have "foldl (\<lambda>m y. if y > m then y else m) a (x # xs) = Max (set (max a x # xs))"
    using Cons.IH by simp
  also have "\<dots> = Max (set (a # x # xs))"
    by (cases "xs = []") (simp_all add: max.assoc)
  finally show ?case .
qed

text \<open>
  Claim C4. A dict node of type \<^verbatim>\<open>"+"\<close>, \<^verbatim>\<open>"*"\<close> or \<^verbatim>\<open>"max"\<close> with a non-empty list
  of parts, all of which have a score, scores the sum, the product or the maximum of
  the scores of its parts.
\<close>

theorem combine_scores:
  assumes "map_of part ''type'' = Some ty"
    and "ty \<in> set [PStr ''+'', PStr ''*'', PStr ''max'']"
    and "map_of part ''parts'' = Some (PSeq sub_parts)"
    and "sub_parts \<noteq> []"
    and "map (computeScore fp kw) sub_parts = map Inr scores"
  shows "computeScore fp kw (PDict part) =
     Inr (if ty = PStr ''+'' then sum_list scores
          else if ty = PStr ''*'' then prod_list scores
          else Max (set scores))"
proof -
  from assms(4,5) obtain s ss where sc: "scores = s # ss" by (cases scores) auto
  have c: "collect (map (computeScore fp kw) sub_parts) = Inr scores"
    by (simp add: assms(5) collect_map_Inr)
  show ?thesis
    using assms(1,2,3) c
    by (auto simp: sc combine_def foldl_mult_prod_list py_sum_sum_list foldl_greater_Max)
qed

text \<open>
  Claim C4 at a sum, a product and a maximum of the two hits \<^verbatim>\<open>("f", 1, 2)\<close> and
  \<^verbatim>\<open>("f", 1, 3)\<close>: the scores are 5, 6 and 3.
\<close>

theorem combine_scores_witness:
  "computeScore None None
      (PDict [(''type'', PStr ''+''),
              (''parts'', PSeq [PSeq [PStr ''f'', PNum 1, PNum 2], PSeq [PStr ''f'', PNum 1, PNum 3]])])
     = Inr 5
   \<and> computeScore None None
      (PDict [(''type'', PStr ''*''),
              (''parts'', PSeq [PSeq [PStr ''f'', PNum 1, PNum 2], PSeq [PStr ''f'', PNum 1, PNum 3]])])
     = Inr 6
   \<and> computeScore None None
      (PDict [(''type'', PStr ''max''),
              (''parts'', PSeq [PSeq [PStr ''f'', PNum 1, PNum 2], PSeq [PStr ''f'', PNum 1, PNum 3]])])
     = Inr 3"
proof -
  let ?parts = "[PSeq [PStr ''f'', PNum 1, PNum 2], PSeq [PStr ''f'', PNum 1, PNum 3]]"
  have ne: "?parts \<noteq> []" by simp
  have sc: "map (computeScore None None) ?parts = map Inr [2, 3]"
    by (simp add: hit_score_def field_multiplier_def query_weight_def item_def)
  have a: "computeScore None None (PDict [(''type'', PStr ''+''), (''parts'', PSeq ?parts)]) = Inr 5"
    using combine_scores[of "[(''type'', PStr ''+''), (''parts'', PSeq ?parts)]" "PStr ''+''"
        ?parts None None "[2, 3]", OF _ _ _ ne sc]
    by simp
  have b: "computeScore None None (PDict [(''type'', PStr ''*''), (''parts'', PSeq ?parts)]) = Inr 6"
    using combine_scores[of "[(''type'', PStr ''*''), (''parts'', PSeq ?parts)]" "PStr ''*''"
        ?parts None None "[2, 3]", OF _ _ _ ne sc]
    by simp
  have c: "computeScore None None (PDict [(''type'', PStr ''max''), (''parts'', PSeq ?parts)]) = Inr 3"
    using combine_scores[of "[(''type'', PStr ''max''), (''parts'', PSeq ?parts)]" "PStr ''max''"
        ?parts None None "[2, 3]", OF _ _ _ ne sc]
    by simp
  from a b c show ?thesis by simp
qed

subsection \<open>The formula of an explanation that did not match\<close>

text \<open>
  Claim C8. Recomputing the score of the formula stored for an explanation that did
  not match should give 0 for every pair of weight maps. The parser stores the dict
  \<^verbatim>\<open>{"coord": 0, "matches": []}\<close>, which has no \<^verbatim>\<open>"type"\<close> entry, and
  \<^verbatim>\<open>computeScore\<close> raises \<^verbatim>\<open>KeyError\<close> at \<^verbatim>\<open>part["type"]\<close> whatever the maps are.
\<close>

theorem unmatched_formula_raises:
  "fromElasticExplanation rx (Explanation False d) save_terms
     = Inr (PDict [(''coord'', PNum 0), (''matches'', PSeq [])])
   \<and> StoredFormula_computeScore (PDict [(''coord'', PNum 0), (''matches'', PSeq [])])
         field_parameters kw_parameters = Inl KeyError"
  by (simp add: fromElasticExplanation_def StoredFormula_computeScore_def)

section \<open>Properties of the weight optimizer\<close>

subsection \<open>The floor\<close>

text \<open>The floor: weights that are not negative stay so through every sweep.\<close>

lemma trial_floor:
  assumes "\<forall>e \<in> set (weights st). 0 \<le> snd e"
  shows "\<forall>e \<in> set (weights (trial m direction st index)). 0 \<le> snd e"
proof (cases "index < length (weights st)")
  case True
  have "0 \<le> snd e" if "e \<in> set ((weights st)[index := (k, max 0 v)])" for e k v
  proof -
    from that have "e = (k, max 0 v) \<or> e \<in> set (weights st)"
      using set_update_subset_insert[of "weights st" index "(k, max 0 v)"] by auto
    then show ?thesis using assms by auto
  qed
  then show ?thesis
    using assms True by (auto simp: trial_def Let_def MIN_WEIGHT_def)
next
  case False
  then have "(weights st)[index := e] = weights st" for e
    by (intro list_update_beyond) simp
  then show ?thesis using assms by (simp add: trial_def Let_def)
qed

lemma trials_floor:
  "\<forall>e \<in> set (weights st). 0 \<le> snd e \<Longrightarrow>
   \<forall>e \<in> set (weights (foldl (trial m direction) st is)). 0 \<le> snd e"
proof (induction "is" arbitrary: st)
  case Nil
  then show ?case by simp
next
  case (Cons i "is")
  have "\<forall>e \<in> set (weights (trial m direction st i)). 0 \<le> snd e"
    using Cons.prems by (rule trial_floor)
  then show ?case using Cons.IH by simp
qed

lemma sweep_floor:
  "\<forall>e \<in> set (weights st). 0 \<le> snd e \<Longrightarrow> \<forall>e \<in> set (weights (sweep m steps st)). 0 \<le> snd e"
  unfolding sweep_def
proof (induction steps arbitrary: st)
  case Nil
  then show ?case by simp
next
  case (Cons d ds)
  have "\<forall>e \<in> set (weights (foldl (trial m d) st [0..<length (weights st)])). 0 \<le> snd e"
    using Cons.prems by (rule trials_floor)
  then show ?case using Cons.IH by simp
qed

subsection \<open>What a sweep changes\<close>

lemma progress_refl: "progress m st st"
  by (simp add: progress_def)

lemma progress_trans: "progress m a b \<Longrightarrow> progress m b c \<Longrightarrow> progress m a c"
  unfolding progress_def by force

lemma trial_progress: "index < length (weights st) \<Longrightarrow> progress m st (trial m direction st index)"
  by (auto simp: progress_def trial_def Let_def)


lemma trials_progress:
  "\<forall>i \<in> set is. i < length (weights st) \<Longrightarrow> progress m st (foldl (trial m direction) st is)"
proof (induction "is" arbitrary: st)
  case Nil
  then show ?case by (simp add: progress_refl)
next
  case (Cons i "is")
  have p: "progress m st (trial m direction st i)" using Cons.prems by (simp add: trial_progress)
  then have "length (weights (trial m direction st i)) = length (weights st)"
    by (simp add: progress_def)
  then have "progress m (trial m direction st i) (foldl (trial m direction) (trial m direction st i) is)"
    using Cons by simp
  with p show ?case using progress_trans by fastforce
qed











subsection \<open>The trials of a sweep\<close>

lemma trials_length:
  "\<forall>i \<in> set is. i < length (weights st) \<Longrightarrow>
   length (weights (foldl (trial m direction) st is)) = length (weights st)"
  using trials_progress[of "is" st m direction] by (simp add: progress_def)

lemma trials_as_pairs:
  "foldl (\<lambda>st (direction, index). trial m direction st index) st (map (Pair d) is)
     = foldl (trial m d) st is"
  by (induction "is" arbitrary: st) simp_all

lemma sweep_as_pairs:
  "sweep m steps st
     = foldl (\<lambda>st (direction, index). trial m direction st index) st
         (List.product steps [0..<length (weights st)])"
proof (induction steps arbitrary: st)
  case Nil
  then show ?case by (simp add: sweep_def)
next
  case (Cons d ds)
  let ?st1 = "foldl (trial m d) st [0..<length (weights st)]"
  have len: "length (weights ?st1) = length (weights st)"
    by (rule trials_length) simp
  have "sweep m (d # ds) st = sweep m ds ?st1" by (simp add: sweep_def)
  also have "\<dots> = foldl (\<lambda>st (direction, index). trial m direction st index) ?st1
                      (List.product ds [0..<length (weights st)])"
    using Cons[of ?st1] len by simp
  finally show ?case by (simp add: trials_as_pairs)
qed

text \<open>
  Claim C2. A trial proposes the vector in which the weight at \<open>index\<close> is
  \<open>max(0, weight + direction)\<close> and evaluates the metric on it. If the score is strictly
  greater than the accepted score, the proposed vector and its score are kept;
  otherwise the accepted score stays and the vector is again the one before the trial,
  all weights included. The names of the weights and their order never change. A sweep
  is exactly the sequence of these trials for the pairs of a step size and a position,
  the step sizes in their order and, within one step size, the positions in their
  order; with no step size it changes nothing.
\<close>

theorem sweep_trials_keep_or_revert:
  assumes "index < length (weights st)"
  shows "(let proposed = (weights st)[index := (fst (weights st ! index),
                                       max 0 (snd (weights st ! index) + direction))]
          in this_score (trial m direction st index) = Some (m proposed)
             \<and> (if previous_score st < m proposed
                 then weights (trial m direction st index) = proposed
                      \<and> previous_score (trial m direction st index) = m proposed
                 else weights (trial m direction st index) = weights st
                      \<and> previous_score (trial m direction st index) = previous_score st))
         \<and> map fst (weights (trial m direction st index)) = map fst (weights st)
         \<and> sweep m steps st
             = foldl (\<lambda>st (direction, index). trial m direction st index) st
                 (List.product steps [0..<length (weights st)])"
proof -
  have names: "map fst ((weights st)[index := (fst (weights st ! index), v)]) = map fst (weights st)" for v
    using assms by (simp add: map_update list_update_same_conv)
  have one: "(let proposed = (weights st)[index := (fst (weights st ! index),
                                       max 0 (snd (weights st ! index) + direction))]
          in this_score (trial m direction st index) = Some (m proposed)
             \<and> (if previous_score st < m proposed
                 then weights (trial m direction st index) = proposed
                      \<and> previous_score (trial m direction st index) = m proposed
                 else weights (trial m direction st index) = weights st
                      \<and> previous_score (trial m direction st index) = previous_score st))"
    using assms by (simp add: trial_def Let_def MIN_WEIGHT_def)
  have kept: "map fst (weights (trial m direction st index)) = map fst (weights st)"
    using assms names by (simp add: trial_def Let_def)
  from one kept sweep_as_pairs[of m steps st] show ?thesis by blast
qed

text \<open>
  Claim C2 on the weights \<^verbatim>\<open>{"a": 1, "b": 0}\<close> with accepted score 0 and the two-valued
  metric. The step 6 on \<open>a\<close> is kept (score 1); the step -1 on \<open>b\<close> stops at the floor
  0 and is reverted (score 0). The sweep with the step sizes of the source runs six
  trials, in the order listed; it keeps the step 6 on \<open>a\<close> and, \<open>a\<close> having been
  moved first, reverts the step 6 on \<open>b\<close>.
\<close>

theorem sweep_trials_keep_or_revert_witness:
  "(0::nat) < length (weights \<lparr>weights = [(''a'', 1), (''b'', 0)], previous_score = 0, this_score = None\<rparr>)
   \<and> trial step_metric 6
        \<lparr>weights = [(''a'', 1), (''b'', 0)], previous_score = 0, this_score = None\<rparr> 0
       = \<lparr>weights = [(''a'', 7), (''b'', 0)], previous_score = 1, this_score = Some 1\<rparr>
   \<and> (1::nat) < length (weights \<lparr>weights = [(''a'', 1), (''b'', 0)], previous_score = 0, this_score = None\<rparr>)
   \<and> trial step_metric (-1)
        \<lparr>weights = [(''a'', 1), (''b'', 0)], previous_score = 0, this_score = None\<rparr> 1
       = \<lparr>weights = [(''a'', 1), (''b'', 0)], previous_score = 0, this_score = Some 0\<rparr>
   \<and> List.product [-1, 6, -2 :: int]
         [0..<length (weights \<lparr>weights = [(''a'', 1), (''b'', 0)], previous_score = 0, this_score = None\<rparr>)]
       = [(-1, 0), (-1, 1), (6, 0), (6, 1), (-2, 0), (-2, 1)]
   \<and> sweep step_metric [-1, 6, -2]
        \<lparr>weights = [(''a'', 1), (''b'', 0)], previous_score = 0, this_score = None\<rparr>
       = \<lparr>weights = [(''a'', 7), (''b'', 0)], previous_score = 1, this_score = Some 1\<rparr>"
proof -
  let ?st = "\<lparr>weights = [(''a'', 1), (''b'', 0)], previous_score = 0, this_score = None\<rparr>"
  have i0: "(0::nat) < length (weights ?st)" and i1: "(1::nat) < length (weights ?st)"
    by simp_all
  have p: "List.product [-1, 6, -2 :: int] [0..<length (weights ?st)]
             = [(-1, 0), (-1, 1), (6, 0), (6, 1), (-2, 0), (-2, 1)]"
    by (simp add: upt_rec)
  have t0: "trial step_metric 6 ?st 0
              = \<lparr>weights = [(''a'', 7), (''b'', 0)], previous_score = 1, this_score = Some 1\<rparr>"
    using sweep_trials_keep_or_revert[OF i0, of 6 step_metric "[]"]
    by (simp add: trial_def Let_def MIN_WEIGHT_def step_metric_def)
  have t1: "trial step_metric (-1) ?st 1
              = \<lparr>weights = [(''a'', 1), (''b'', 0)], previous_score = 0, this_score = Some 0\<rparr>"
    using sweep_trials_keep_or_revert[OF i1, of "-1" step_metric "[]"]
    by (simp add: trial_def Let_def MIN_WEIGHT_def step_metric_def)
  have s: "sweep step_metric [-1, 6, -2] ?st
       = \<lparr>weights = [(''a'', 7), (''b'', 0)], previous_score = 1, this_score = Some 1\<rparr>"
    using sweep_trials_keep_or_revert[OF i0, of 6 step_metric "[-1, 6, -2]"]
    by (simp add: p trial_def Let_def MIN_WEIGHT_def step_metric_def)
  from i0 i1 p t0 t1 s show ?thesis by simp
qed

subsection \<open>Termination of the sweep loop\<close>








text \<open>The same run, computed: three sweeps, of which the first moves the weight to 7.\<close>

lemma sweep_loop_run:
  "sweep_loop step_metric [-1, 6, -2] (initial_state step_metric [(''w'', 1)] None)
   = Some (Inr \<lparr>weights = [(''w'', 7)], previous_score = 1, this_score = Some 1,
      score_baseline = 1, overall_improvement = 0, passes = 3,
      score_progression = [0, 1, 1, 1]\<rparr>)"
  by (simp add: sweep_loop.simps initial_state_def full_sweep_def end_of_sweep_def sweep_def
      trial_def MIN_WEIGHT_def Let_def step_metric_def)




text \<open>
  Without a weight no trial runs, and the first sweep ends in \<^verbatim>\<open>UnboundLocalError\<close>
  when \<^verbatim>\<open>this_score\<close> is read.
\<close>

lemma sweep_loop_no_weights:
  "sweep_loop m steps (initial_state m [] None) = Some (Inl UnboundLocalError)"
proof -
  have "foldl (\<lambda>st direction. foldl (trial m direction) st [0..<length (weights st)]) st ds = st"
    if "weights st = []" for st :: loop_state and ds
    using that by (induction ds) simp_all
  then have "sweep m steps (initial_state m [] None) = initial_state m [] None"
    by (simp add: sweep_def initial_state_def)
  then show ?thesis
    by (subst sweep_loop.simps) (simp add: initial_state_def)
qed

subsection \<open>Smoothing\<close>

text \<open>
  Claim C6, as amended. Smoothing lowers a weight above 1 by the fixed amount 1/3, raises
  a weight below 1 by a third of its absolute value, and leaves the weight 1 as it is;
  it does so to every entry of the dict of best weights.
\<close>

lemma smooth_entries: "map_of (smooth best) k = map_option smooth_weight (map_of best k)"
  by (induction best) (auto simp: smooth_def)

theorem smooth_weight_formula:
  "smooth_weight w = (if w > 1 then w - 1 / 3 else if w < 1 then w + \<bar>w\<bar> / 3 else w)
   \<and> map_of (smooth best) k = map_option smooth_weight (map_of best k)"
  by (simp add: smooth_weight_def Let_def min_def smooth_entries)

text \<open>
  Claim C6 as stated fails: the weight 7 becomes \<open>20/3\<close>, not \<open>7 - (7 - 1)/3 = 5\<close>.
\<close>

theorem smooth_weight_not_third_of_distance:
  "smooth_weight 7 = 20 / 3 \<and> smooth_weight 7 \<noteq> 7 - (7 - 1) / 3"
  by (simp add: smooth_weight_def Let_def)

subsection \<open>The folds\<close>

text \<open>
  Claim C7. Selecting a fold should yield a pair of train and test indices. For four
  results and two folds, fold 0, \<^verbatim>\<open>dynamicWeightValues\<close> raises \<^verbatim>\<open>TypeError\<close> when it
  subscripts the \<^verbatim>\<open>zip\<close> iterator, and \<^verbatim>\<open>measureScoresOfWeights\<close> raises \<^verbatim>\<open>TypeError\<close>
  when it iterates the \<^verbatim>\<open>KFold\<close> object.
\<close>

theorem fold_selection_raises:
  "train_fold 2 (Plain_list [r0, r1, r2, r3]) 0 = Inl TypeError
   \<and> test_fold 2 (Plain_list [r0, r1, r2, r3]) 0 = Inl TypeError"
  by (simp add: train_fold_def test_fold_def KFold_def)

text \<open>No number of folds and no fold index gives a training or test set.\<close>

lemma no_fold_selected:
  "train_fold numfolds retrieval_results i \<noteq> Inr train_set"
  "test_fold numfolds retrieval_results j \<noteq> Inr test_set"
  by (auto simp: train_fold_def test_fold_def KFold_def split: sum.splits kfold.splits)

text \<open>
  The pairs that the generator would yield are the partition the claim describes: the
  test blocks, one after the other, are the index range, and each training set is the
  rest of the range.
\<close>

lemma test_folds_concat: "concat (test_folds c ss) = [c..<c + sum_list ss]"
proof (induction ss arbitrary: c)
  case Nil
  then show ?case by simp
next
  case (Cons s ss)
  have "[c..<c + s] @ [c + s..<c + s + sum_list ss] = [c..<c + s + sum_list ss]"
    by (metis le_add1 upt_add_eq_append)
  then show ?case using Cons by (simp add: add.assoc)
qed

lemma fold_sizes_sum:
  assumes "0 < k"
  shows "sum_list (fold_sizes n k) = n"
proof -
  have "sum_list (fold_sizes n k) = (\<Sum>i = 0..<k. n div k + (if i < n mod k then 1 else 0))"
    by (simp add: fold_sizes_def interv_sum_list_conv_sum_set_nat)
  also have "\<dots> = k * (n div k) + (\<Sum>i = 0..<k. if i < n mod k then 1 else 0)"
    by (simp add: sum.distrib)
  also have "(\<Sum>i = 0..<k. if i < n mod k then 1 else 0) = card {i \<in> {0..<k}. i < n mod k}"
    by (simp add: sum.If_cases Int_def)
  also have "{i \<in> {0..<k}. i < n mod k} = {0..<n mod k}"
    using assms by (auto intro: less_trans[OF _ mod_less_divisor])
  finally show ?thesis by simp
qed

lemma length_test_folds: "length (test_folds c ss) = length ss"
  by (induction ss arbitrary: c) auto

lemma split_partition:
  assumes "0 < k" and "k \<le> n"
  shows "\<exists>folds. split (KFold_object k) n = Inr folds \<and> length folds = k
           \<and> concat (map snd folds) = [0..<n]
           \<and> (\<forall>(train, test) \<in> set folds.
                 set train \<inter> set test = {} \<and> set train \<union> set test = {0..<n})"
proof -
  let ?tests = "test_folds 0 (fold_sizes n k)"
  let ?folds = "map (\<lambda>test. (filter (\<lambda>i. i \<notin> set test) [0..<n], test)) ?tests"
  have cover: "concat ?tests = [0..<n]"
    using assms(1) by (simp add: test_folds_concat fold_sizes_sum)
  have "set test \<subseteq> {0..<n}" if "test \<in> set ?tests" for test
  proof -
    have "set test \<subseteq> set (concat ?tests)" using that by auto
    then show ?thesis by (simp add: cover)
  qed
  then have parts: "\<forall>(train, test) \<in> set ?folds.
      set train \<inter> set test = {} \<and> set train \<union> set test = {0..<n}"
    by auto
  have "map snd ?folds = ?tests" by (simp add: comp_def)
  then have "concat (map snd ?folds) = [0..<n]" using cover by simp
  moreover have "length ?folds = k" by (simp add: length_test_folds fold_sizes_def)
  moreover have "split (KFold_object k) n = Inr ?folds" using assms(2) by simp
  ultimately show ?thesis using parts by blast
qed

subsection \<open>The configured step sizes\<close>

text \<open>
  Claim C10. Two configurations that differ only in \<^verbatim>\<open>movements\<close> give the same
  result: \<^verbatim>\<open>dynamicWeightValues\<close> overwrites the option before it reads it.
\<close>

theorem movements_option_ignored:
  "dynamicWeightValues env (self_exp\<lparr>movements := a\<rparr>) split_fold
     = dynamicWeightValues env (self_exp\<lparr>movements := b\<rparr>) split_fold"
  by (simp add: dynamicWeightValues_def)

text \<open>The step sizes under which every method is trained are those of the source.\<close>

lemma dynamicWeightValues_steps:
  "dynamicWeightValues env self_exp split_fold
     = dynamicWeightValues env (self_exp\<lparr>movements := [-1, 6, -2]\<rparr>) split_fold"
  by (simp add: dynamicWeightValues_def)

section \<open>Properties of the measuring\<close>

lemma measure_loop_append:
  "measure_loop env method parameters logger (xs @ ys) =
     (case measure_loop env method parameters logger xs of
        Inl e \<Rightarrow> Inl e
      | Inr logger' \<Rightarrow> measure_loop env method parameters logger' ys)"
  by (induction xs arbitrary: logger) (auto split: sum.splits)

text \<open>
  Claim C9. Take a result of \<^verbatim>\<open>measurePrecomputedResolution\<close> that has the keys copied
  into \<^verbatim>\<open>result_dict\<close> and whose recomputed candidate list is \<^verbatim>\<open>None\<close> or empty, the
  results before it having been processed. Provided the logger's
  \<^verbatim>\<open>addResolutionResultDict\<close> returns, the step for this result does not raise: it hands
  the logger the result's dict with rank 0 and the scores mrr, ndcg and precision all 0.
  The method then goes on with the remaining results from the logger so obtained, and
  reports from the final logger.
\<close>

theorem empty_query_recorded:
  assumes "map_of result ''formulas'' = Some fs"
    and "runPrecomputedQuery env fs parameters = Inr None
         \<or> runPrecomputedQuery env fs parameters = Inr (Some [])"
    and "make_result_dict result method = Inr d"
    and "measure_loop env method parameters (new_logger env (length (before @ result # rest))) before
           = Inr logger"
    and "addResolutionResultDict env (empty_query_dict d) logger = Inr logger'"
  shows "measure_result env method parameters logger result = Inr logger'
       \<and> map_of (empty_query_dict d) ''rank'' = Some (PNum 0)
       \<and> map_of (empty_query_dict d) ''mrr_score'' = Some (PNum 0)
       \<and> map_of (empty_query_dict d) ''ndcg_score'' = Some (PNum 0)
       \<and> map_of (empty_query_dict d) ''precision_score'' = Some (PNum 0)
       \<and> measurePrecomputedResolution env (before @ result # rest) method parameters citation_az
           = (case measure_loop env method parameters logger' rest of
                Inl e \<Rightarrow> Inl e
              | Inr final \<Rightarrow> report env citation_az final)"
proof -
  have step: "measure_result env method parameters logger result = Inr logger'"
    using assms(1,2,3,5) by (auto simp: measure_result_def)
  have zero: "map_of (empty_query_dict d) ''rank'' = Some (PNum 0)"
    "map_of (empty_query_dict d) ''mrr_score'' = Some (PNum 0)"
    "map_of (empty_query_dict d) ''ndcg_score'' = Some (PNum 0)"
    "map_of (empty_query_dict d) ''precision_score'' = Some (PNum 0)"
    by (simp_all add: empty_query_dict_def update_conv')
  have "measure_loop env method parameters (new_logger env (length (before @ result # rest)))
          (before @ result # rest) = measure_loop env method parameters logger' rest"
    using assms(4) step by (simp add: measure_loop_append)
  then have "measurePrecomputedResolution env (before @ result # rest) method parameters citation_az
           = (case measure_loop env method parameters logger' rest of
                Inl e \<Rightarrow> Inl e
              | Inr final \<Rightarrow> report env citation_az final)"
    by (simp add: measurePrecomputedResolution_def)
  with step zero show ?thesis by simp
qed

text \<open>
  Claim C9 on two results, the first with an empty candidate list, the second without
  \<^verbatim>\<open>"formulas"\<close>. The logger is the list of the dicts it was given and reports the
  average of their ranks: the method returns one data line, with the average rank 0 of
  the one dict recorded.
\<close>

theorem empty_query_recorded_witness:
  "map_of [(''formulas'', PSeq []), (''file_guid'', PStr ''g''), (''citation_id'', PStr ''c''),
           (''doc_position'', PNum 1), (''query_method'', PStr ''q''), (''az'', PStr ''Bkg''),
           (''cfc'', PStr ''x''), (''match_guids'', PSeq [])] ''formulas'' = Some (PSeq [])
   \<and> make_result_dict
        [(''formulas'', PSeq []), (''file_guid'', PStr ''g''), (''citation_id'', PStr ''c''),
         (''doc_position'', PNum 1), (''query_method'', PStr ''q''), (''az'', PStr ''Bkg''),
         (''cfc'', PStr ''x''), (''match_guids'', PSeq [])] ''method''
      = Inr [(''file_guid'', PStr ''g''), (''citation_id'', PStr ''c''),
             (''doc_position'', PNum 1), (''query_method'', PStr ''q''),
             (''doc_method'', PStr ''method''), (''az'', PStr ''Bkg''), (''cfc'', PStr ''x''),
             (''match_guids'', PSeq [])]
   \<and> measurePrecomputedResolution
        \<lparr>runPrecomputedQuery = (\<lambda>f p. Inr (Some ([] :: unit list))), new_logger = (\<lambda>n. []),
         addResolutionResultDict = (\<lambda>d l. Inr (l @ [d])),
         measureScoreAndLog = (\<lambda>c n d l. Inr l),
         computeAverageScores = (\<lambda>l. Inr l),
         averages = (\<lambda>l. [(''q'', [(''method'', [(''rank'',
                       sum_list (map (\<lambda>d. case map_of d ''rank'' of Some (PNum r) \<Rightarrow> r | _ \<Rightarrow> 1) l)
                         / real (length l))])])]),
         precision_total = (\<lambda>l q d. Inr 0)\<rparr>
        [[(''formulas'', PSeq []), (''file_guid'', PStr ''g''), (''citation_id'', PStr ''c''),
           (''doc_position'', PNum 1), (''query_method'', PStr ''q''), (''az'', PStr ''Bkg''),
           (''cfc'', PStr ''x''), (''match_guids'', PSeq [])],
         [(''file_guid'', PStr ''unread'')]]
        ''method'' () ''Bkg''
      = Inr [[(''query_method'', PStr ''q''), (''doc_method'', PStr ''method''),
              (''citation_az'', PStr ''Bkg''), (''avg_rank'', PNum 0), (''precision_total'', PNum 0)]]"
proof -
  let ?env = "\<lparr>runPrecomputedQuery = (\<lambda>(f::pyval) (p::unit). Inr (Some ([] :: unit list))),
         new_logger = (\<lambda>n. ([] :: py_dict list)),
         addResolutionResultDict = (\<lambda>d l. Inr (l @ [d])),
         measureScoreAndLog = (\<lambda>c n d l. Inr l),
         computeAverageScores = (\<lambda>l. Inr l),
         averages = (\<lambda>l. [(''q'', [(''method'', [(''rank'',
                       sum_list (map (\<lambda>d. case map_of d ''rank'' of Some (PNum r) \<Rightarrow> r | _ \<Rightarrow> 1) l)
                         / real (length l))])])]),
         precision_total = (\<lambda>l q d. Inr 0)\<rparr>"
  let ?result = "[(''formulas'', PSeq []), (''file_guid'', PStr ''g''), (''citation_id'', PStr ''c''),
           (''doc_position'', PNum 1), (''query_method'', PStr ''q''), (''az'', PStr ''Bkg''),
           (''cfc'', PStr ''x''), (''match_guids'', PSeq [])]"
  let ?d = "[(''file_guid'', PStr ''g''), (''citation_id'', PStr ''c''),
           (''doc_position'', PNum 1), (''query_method'', PStr ''q''), (''doc_method'', PStr ''method''),
           (''az'', PStr ''Bkg''), (''cfc'', PStr ''x''), (''match_guids'', PSeq [])]"
  have f: "map_of ?result ''formulas'' = Some (PSeq [])" by simp
  have r: "runPrecomputedQuery ?env (PSeq []) () = Inr None
           \<or> runPrecomputedQuery ?env (PSeq []) () = Inr (Some [])" by simp
  have d: "make_result_dict ?result ''method'' = Inr ?d"
    by (simp add: make_result_dict_def result_dict_keys_def dict_item_def)
  have b: "measure_loop ?env ''method'' ()
             (new_logger ?env (length ([] @ ?result # [[(''file_guid'', PStr ''unread'')]]))) []
           = Inr []" by simp
  have a: "addResolutionResultDict ?env (empty_query_dict ?d) [] = Inr [empty_query_dict ?d]" by simp
  have m: "measurePrecomputedResolution ?env [?result, [(''file_guid'', PStr ''unread'')]]
             ''method'' () ''Bkg''
      = Inr [[(''query_method'', PStr ''q''), (''doc_method'', PStr ''method''),
              (''citation_az'', PStr ''Bkg''), (''avg_rank'', PNum 0), (''precision_total'', PNum 0)]]"
    using empty_query_recorded[OF f r d b a, of "''Bkg''"]
    by (simp add: measure_result_def report_def data_line_def empty_query_dict_def)
  from f d m show ?thesis by simp
qed

end
